theory Spec2Isabelle
  imports Complex_Main "HOL-Library.Word" "HOL-Library.List_Lexorder"
    "HOL-Library.Product_Lexorder" "HOL-Library.Multiset"
begin

section \<open>Data model (types.ts)\<close>

text \<open>
  A JavaScript string is a sequence of UTF-16 code units; the default comparison of
  strings (and therefore \<^verbatim>\<open>Array.prototype.sort()\<close> without a comparator) is the
  lexicographic order of these sequences, which is the order that
  the theory \<open>List_Lexorder\<close> of the library puts on lists.

  A JavaScript \<^verbatim>\<open>number\<close> that holds a price or a sum of prices is modelled as a
  real number (the spec's "real-valued totals"); counters are natural numbers.
\<close>

type_synonym js_string = "16 word list"

type_synonym number = real

text \<open>\<^verbatim>\<open>interface StorePrice\<close>\<close>

record storePrice =
  storeName :: js_string
  price :: number
  inStock :: bool
  productName :: js_string
  weight :: js_string

text \<open>
  \<^verbatim>\<open>interface ShoppingItem\<close>; the field \<^verbatim>\<open>id\<close> is \<open>itemId\<close> here, and the optional
  fields \<^verbatim>\<open>bestStore?\<close>, \<^verbatim>\<open>bestPrice?\<close> are options (\<open>None\<close> is absent).
\<close>

record shoppingItem =
  itemId :: js_string
  name :: js_string
  originalAmount :: js_string
  prices :: "storePrice list"
  bestStore :: "js_string option"
  bestPrice :: "number option"

text \<open>\<^verbatim>\<open>enum AppStatus\<close>\<close>

datatype AppStatus = IDLE | PLANNING | PARSING | READY | ERROR

text \<open>
  The object literal \<^verbatim>\<open>{ storeName, totalCost, missingItems }\<close> of PriceParser.tsx
  (the spec's StoreTotal); its \<^verbatim>\<open>storeName\<close> is \<open>totalStoreName\<close> here.
\<close>

record storeTotal =
  totalStoreName :: js_string
  totalCost :: number
  missingItems :: nat

section \<open>Library functions of JavaScript used by the components\<close>

text \<open>
  \<^verbatim>\<open>Array.from(new Set(xs))\<close>: a Set keeps the first occurrence of every value, in
  insertion order.
\<close>

definition set_from :: "'a list \<Rightarrow> 'a list" where
  "set_from xs = fold (\<lambda>x acc. if x \<in> set acc then acc else acc @ [x]) xs []"

text \<open>
  \<^verbatim>\<open>xs.find(pred)\<close>: the first element that satisfies the predicate, or
  \<^verbatim>\<open>undefined\<close> (\<open>None\<close>). This is \<^const>\<open>List.find\<close>.

  \<^verbatim>\<open>xs.sort(cmp)\<close>: ECMAScript (2019 and later) requires the sort to be stable. It is
  modelled as the stable insertion sort that puts \<open>x\<close> before the first \<open>y\<close> with
  \<open>cmp x y \<le> 0\<close>.
\<close>

fun insert_by :: "('a \<Rightarrow> 'a \<Rightarrow> number) \<Rightarrow> 'a \<Rightarrow> 'a list \<Rightarrow> 'a list" where
  "insert_by cmp x [] = [x]"
| "insert_by cmp x (y # ys) =
     (if cmp x y \<le> 0 then x # y # ys else y # insert_by cmp x ys)"

definition sort_by :: "('a \<Rightarrow> 'a \<Rightarrow> number) \<Rightarrow> 'a list \<Rightarrow> 'a list" where
  "sort_by cmp xs = foldr (insert_by cmp) xs []"

section \<open>PriceParser.tsx: aggregation and ranking\<close>

text \<open>
  \<^verbatim>\<open>
  const allStoreNames = Array.from(new Set(
      items.flatMap(item => item.prices.map(p => p.storeName))
  )).sort();
  \<close>
  The sort without a comparator orders the strings by their code units; \<^const>\<open>sort\<close> is
  the stable insertion sort of the list library on that order.
\<close>

definition allStoreNames :: "shoppingItem list \<Rightarrow> js_string list" where
  "allStoreNames items =
     sort (set_from (concat (map (\<lambda>item. map storeName (prices item)) items)))"

text \<open>
  \<^verbatim>\<open>
  items.forEach(item => {
      const priceObj = item.prices.find(p => p.storeName === storeName);
      if (priceObj && priceObj.inStock) { totalCost += priceObj.price; }
      else { missingItems++; }
  });
  \<close>
  The two local variables \<^verbatim>\<open>totalCost\<close> and \<^verbatim>\<open>missingItems\<close> are the pair
  \<open>(cost, missing)\<close> that the loop threads through the items.
\<close>

definition addItem :: "js_string \<Rightarrow> shoppingItem \<Rightarrow> number \<times> nat \<Rightarrow> number \<times> nat" where
  "addItem s item acc =
     (case acc of (cost, missing) \<Rightarrow>
        (case find (\<lambda>p. storeName p = s) (prices item) of
           Some priceObj \<Rightarrow>
             if inStock priceObj then (cost + price priceObj, missing)
             else (cost, missing + 1)
         | None \<Rightarrow> (cost, missing + 1)))"

definition storeTotalOf :: "shoppingItem list \<Rightarrow> js_string \<Rightarrow> storeTotal" where
  "storeTotalOf items s =
     (case fold (addItem s) items (0, 0) of (cost, missing) \<Rightarrow>
        \<lparr>totalStoreName = s, totalCost = cost, missingItems = missing\<rparr>)"

definition storeTotals :: "shoppingItem list \<Rightarrow> storeTotal list" where
  "storeTotals items = map (storeTotalOf items) (allStoreNames items)"

text \<open>
  \<^verbatim>\<open>
  const sortedStores = [...storeTotals].sort((a, b) => {
      if (a.missingItems !== b.missingItems) return a.missingItems - b.missingItems;
      return a.totalCost - b.totalCost;
  });
  const winner = sortedStores[0];
  \<close>
  Reading index 0 of an empty array gives \<^verbatim>\<open>undefined\<close>, which is \<open>None\<close> here.
\<close>

definition compareStores :: "storeTotal \<Rightarrow> storeTotal \<Rightarrow> number" where
  "compareStores a b =
     (if missingItems a \<noteq> missingItems b
      then real (missingItems a) - real (missingItems b)
      else totalCost a - totalCost b)"

definition sortedStores :: "storeTotal list \<Rightarrow> storeTotal list" where
  "sortedStores totals = sort_by compareStores totals"

definition winner :: "storeTotal list \<Rightarrow> storeTotal option" where
  "winner totals = (case sortedStores totals of [] \<Rightarrow> None | w # _ \<Rightarrow> Some w)"

text \<open>
  The pair of keys that the comparator reads, ordered lexicographically: the order of
  the ranking, used to reason about \<open>compareStores\<close>.
\<close>

definition rankKey :: "storeTotal \<Rightarrow> nat \<times> number" where
  "rankKey t = (missingItems t, totalCost t)"

text \<open>
  The rows of the table:
  \<^verbatim>\<open>
  const prices = item.prices.filter(p => p.inStock).map(p => p.price);
  const minPrice = prices.length > 0 ? Math.min(...prices) : 0;
  ...
  const p = item.prices.find(pr => pr.storeName === store);
  const isBest = p && p.inStock && p.price === minPrice;
  \<close>
  \<^verbatim>\<open>Math.min\<close> of a non-empty argument list is the minimum, taken from left to right.
\<close>

definition minPrice :: "shoppingItem \<Rightarrow> number" where
  "minPrice item =
     (case map price (filter inStock (prices item)) of
        [] \<Rightarrow> 0
      | p # ps \<Rightarrow> fold min ps p)"

definition isBest :: "shoppingItem \<Rightarrow> js_string \<Rightarrow> bool" where
  "isBest item store =
     (case find (\<lambda>pr. storeName pr = store) (prices item) of
        None \<Rightarrow> False
      | Some p \<Rightarrow> inStock p \<and> price p = minPrice item)"

text \<open>
  What the component renders. In the branch \<^verbatim>\<open>status === AppStatus.READY && items.length > 0\<close>
  the banner reads \<^verbatim>\<open>winner.storeName\<close>, \<^verbatim>\<open>winner.missingItems\<close> and
  \<^verbatim>\<open>winner.totalCost\<close>; reading a property of \<^verbatim>\<open>undefined\<close> throws a TypeError.
  The view keeps the winner, the cards (\<^verbatim>\<open>sortedStores\<close>), the table's columns
  (\<^verbatim>\<open>allStoreNames\<close>) and, for every item, the \<^verbatim>\<open>isBest\<close> flag of every column.
  Outside that branch the component shows the log while parsing and the start prompt
  otherwise.
\<close>

datatype js_error = TypeError

datatype view =
  Comparison storeTotal "storeTotal list" "js_string list" "(shoppingItem \<times> bool list) list"
| ParsingLog
| StartPrompt

definition PriceParser :: "AppStatus \<Rightarrow> shoppingItem list \<Rightarrow> js_error + view" where
  "PriceParser status items =
     (if status = READY \<and> length items > 0 then
        (case winner (storeTotals items) of
           None \<Rightarrow> Inl TypeError
         | Some w \<Rightarrow>
             Inr (Comparison w (sortedStores (storeTotals items)) (allStoreNames items)
                    (map (\<lambda>item. (item, map (isBest item) (allStoreNames items))) items)))
      else Inr (if status = PARSING then ParsingLog else StartPrompt))"

section \<open>services/gemini.ts: post-processing of the price estimation\<close>

text \<open>
  \<^verbatim>\<open>
  return data.map(item => {
    const stockItems = item.prices.filter(p => p.inStock);
    if (stockItems.length > 0) {
      const best = stockItems.reduce((prev, curr) => prev.price < curr.price ? prev : curr);
      return { ...item, bestStore: best.storeName, bestPrice: best.price };
    }
    return item;
  });
  \<close>
  \<^verbatim>\<open>reduce\<close> without an initial value starts from the first element and folds the
  others from left to right; the callback is \<open>cheaper\<close>, with \<^verbatim>\<open>curr\<close> written \<open>cur\<close>.
\<close>

definition cheaper :: "storePrice \<Rightarrow> storePrice \<Rightarrow> storePrice" where
  "cheaper prev cur = (if price prev < price cur then prev else cur)"

definition withBest :: "shoppingItem \<Rightarrow> shoppingItem" where
  "withBest item =
     (case filter inStock (prices item) of
        [] \<Rightarrow> item
      | p # ps \<Rightarrow>
          (let best = fold (\<lambda>cur prev. cheaper prev cur) ps p
           in item\<lparr>bestStore := Some (storeName best), bestPrice := Some (price best)\<rparr>))"

definition postProcess :: "shoppingItem list \<Rightarrow> shoppingItem list" where
  "postProcess data = map withBest data"

section \<open>App.tsx: the session state and handlePlanUpdate\<close>

text \<open>\<^verbatim>\<open>interface Ingredient\<close>, \<^verbatim>\<open>interface Meal\<close> and \<^verbatim>\<open>interface AIPlanResponse\<close>;
  an entry of the plan's shopping list has the fields \<^verbatim>\<open>name\<close> (\<open>entryName\<close> here),
  \<^verbatim>\<open>amount\<close> and \<^verbatim>\<open>estimatedPrice\<close>.\<close>

record ingredient =
  ingredientName :: js_string
  ingredientAmount :: js_string
  category :: js_string

record meal =
  day :: js_string
  breakfast :: js_string
  lunch :: js_string
  dinner :: js_string
  snackAfternoon :: js_string
  snackEvening :: js_string
  ingredients :: "ingredient list"

record planEntry =
  entryName :: js_string
  amount :: js_string
  estimatedPrice :: number

record aiPlanResponse =
  meals :: "meal list"
  shoppingList :: "planEntry list"
  totalEstimatedCost :: number

text \<open>
  The part of the component state that \<^verbatim>\<open>handlePlanUpdate\<close> reads or writes:
  \<^verbatim>\<open>currentPlan\<close>, \<^verbatim>\<open>shoppingList\<close> (\<open>shoppingItems\<close> here) and \<^verbatim>\<open>status\<close>.
\<close>

record appState =
  currentPlan :: "aiPlanResponse option"
  shoppingItems :: "shoppingItem list"
  status :: AppStatus

text \<open>\<^verbatim>\<open>idx.toString()\<close>: the decimal digits of an index, as code units.\<close>

fun toString :: "nat \<Rightarrow> js_string" where
  "toString n =
     (if n < 10 then [of_nat (48 + n)]
      else toString (n div 10) @ [of_nat (48 + n mod 10)])"

declare toString.simps [simp del]

text \<open>
  \<^verbatim>\<open>
  const handlePlanUpdate = (newPlan: AIPlanResponse) => {
      setCurrentPlan(newPlan);
      if (newPlan.shoppingList.length > 0) {
          const skeletonItems: ShoppingItem[] = newPlan.shoppingList.map((item, idx) => ({
             id: idx.toString(), name: item.name, originalAmount: item.amount, prices: []
          }));
          setShoppingList(skeletonItems);
          setStatus(AppStatus.IDLE);
      }
  };
  \<close>
\<close>

definition skeletonItems :: "aiPlanResponse \<Rightarrow> shoppingItem list" where
  "skeletonItems newPlan =
     map (\<lambda>(idx, item).
            \<lparr>itemId = toString idx, name = entryName item, originalAmount = amount item,
             prices = [], bestStore = None, bestPrice = None\<rparr>)
         (enumerate 0 (shoppingList newPlan))"

definition handlePlanUpdate :: "aiPlanResponse \<Rightarrow> appState \<Rightarrow> appState" where
  "handlePlanUpdate newPlan st =
     (let st1 = st\<lparr>currentPlan := Some newPlan\<rparr>
      in if length (shoppingList newPlan) > 0
         then st1\<lparr>shoppingItems := skeletonItems newPlan, status := IDLE\<rparr>
         else st1)"

section \<open>MenuPlanner.tsx: validation of the tool call's arguments\<close>

text \<open>
  \<^verbatim>\<open>call.args as any\<close> is a value of JavaScript. An object is the list of its own
  properties, with distinct keys.
\<close>

datatype json =
  JUndefined
| JNull
| JBool bool
| JNumber number
| JString js_string
| JArray "json list"
| JObject "(js_string \<times> json) list"

text \<open>ASCII literals as code units.\<close>

definition str :: "string \<Rightarrow> js_string" where
  "str s = map of_char s"








section \<open>Analytics.tsx: the budget distribution\<close>














section \<open>The spec's words, for comparison with the code\<close>

text \<open>
  The minimum price among the in-stock quotes of an item (meaningful when there is
  one), and the first and the last in-stock quote, in the order of \<open>prices\<close>, that
  attains it.
\<close>

definition cheapestInStock :: "shoppingItem \<Rightarrow> number" where
  "cheapestInStock item = Min (set (map price (filter inStock (prices item))))"

definition firstCheapest :: "shoppingItem \<Rightarrow> storePrice option" where
  "firstCheapest item =
     find (\<lambda>p. inStock p \<and> price p = cheapestInStock item) (prices item)"

definition lastCheapest :: "shoppingItem \<Rightarrow> storePrice option" where
  "lastCheapest item =
     find (\<lambda>p. inStock p \<and> price p = cheapestInStock item) (rev (prices item))"

section \<open>Fixtures\<close>

text \<open>The quotes and items of the spec's examples.\<close>

definition quote :: "string \<Rightarrow> number \<Rightarrow> bool \<Rightarrow> storePrice" where
  "quote s p b =
     \<lparr>storeName = str s, price = p, inStock = b, productName = [], weight = []\<rparr>"

definition itemOf :: "string \<Rightarrow> storePrice list \<Rightarrow> shoppingItem" where
  "itemOf i ps =
     \<lparr>itemId = str i, name = [], originalAmount = [], prices = ps,
      bestStore = None, bestPrice = None\<rparr>"

definition totalOf :: "string \<Rightarrow> number \<Rightarrow> nat \<Rightarrow> storeTotal" where
  "totalOf s c m = \<lparr>totalStoreName = str s, totalCost = c, missingItems = m\<rparr>"

definition exampleList :: "shoppingItem list" where
  "exampleList =
     [itemOf ''0'' [quote ''A'' 100 True, quote ''B'' 110 True],
      itemOf ''1'' [quote ''B'' 120 True]]"


definition tieItem :: shoppingItem where
  "tieItem = itemOf ''0'' [quote ''X'' 100 True, quote ''Z'' 100 True]"

definition emptyPlan :: aiPlanResponse where
  "emptyPlan = \<lparr>meals = [], shoppingList = [], totalEstimatedCost = 0\<rparr>"

definition milkPlan :: aiPlanResponse where
  "milkPlan =
     \<lparr>meals = [],
      shoppingList =
        [\<lparr>entryName = str ''milk'', amount = str ''1 l'', estimatedPrice = 90\<rparr>,
         \<lparr>entryName = str ''rice'', amount = str ''1 kg'', estimatedPrice = 120\<rparr>],
      totalEstimatedCost = 210\<rparr>"

definition pricedState :: appState where
  "pricedState = \<lparr>currentPlan = None, shoppingItems = exampleList, status = READY\<rparr>"




section \<open>Properties\<close>

lemma set_from_fold_set:
  "set (fold (\<lambda>x acc. if x \<in> set acc then acc else acc @ [x]) xs acc) = set acc \<union> set xs"
  by (induction xs arbitrary: acc) auto

lemma set_from_fold_distinct:
  "distinct acc \<Longrightarrow>
   distinct (fold (\<lambda>x acc. if x \<in> set acc then acc else acc @ [x]) xs acc)"
  by (induction xs arbitrary: acc) auto

lemma set_set_from: "set (set_from xs) = set xs"
  by (simp add: set_from_def set_from_fold_set)

lemma distinct_set_from: "distinct (set_from xs)"
  by (simp add: set_from_def set_from_fold_distinct)

lemma set_allStoreNames:
  "set (allStoreNames items) = (\<Union>item \<in> set items. storeName ` set (prices item))"
  by (auto simp: allStoreNames_def set_set_from)

lemma distinct_allStoreNames: "distinct (allStoreNames items)"
  by (simp add: allStoreNames_def distinct_set_from)

lemmas fixture_defs = exampleList_def itemOf_def quote_def totalOf_def str_def

lemma allStoreNames_exampleList: "allStoreNames exampleList = [str ''A'', str ''B'']"
  by (simp add: allStoreNames_def set_from_def fixture_defs)

text \<open>
  C4. The retailer universe of Step 1 is the set of the store names that occur in the
  quotes of the items, in ascending lexicographic order and without duplicates: the
  list is strictly ascending. This holds for every shopping list, in particular for
  the non-empty ones that reach the computation.
\<close>

theorem allStoreNames_universe:
  "set (allStoreNames items) = (\<Union>item \<in> set items. storeName ` set (prices item))
   \<and> sorted (allStoreNames items)
   \<and> distinct (allStoreNames items)
   \<and> sorted_wrt (<) (allStoreNames items)"
proof -
  have "sorted (allStoreNames items)"
    by (simp add: allStoreNames_def)
  moreover have "sorted_wrt (<) (allStoreNames items)"
    using calculation distinct_allStoreNames [of items]
    by (simp add: strict_sorted_iff)
  ultimately show ?thesis
    by (simp add: set_allStoreNames distinct_allStoreNames)
qed

theorem allStoreNames_universe_witness:
  "set (allStoreNames exampleList) = {str ''A'', str ''B''}
   \<and> allStoreNames exampleList = [str ''A'', str ''B'']"
  using allStoreNames_universe [of exampleList]
  by (simp add: allStoreNames_exampleList)










lemma compareStores_le:
  "compareStores a b \<le> 0 \<longleftrightarrow>
   missingItems a < missingItems b \<or> (missingItems a = missingItems b \<and> totalCost a \<le> totalCost b)"
  by (auto simp: compareStores_def)

lemma compareStores_rankKey: "compareStores a b \<le> 0 \<longleftrightarrow> rankKey a \<le> rankKey b"
  by (auto simp: compareStores_le rankKey_def)

lemma insert_by_insort: "insert_by compareStores x ys = insort_key rankKey x ys"
  by (induction ys) (simp_all add: compareStores_rankKey)

lemma sortedStores_sort_key: "sortedStores totals = sort_key rankKey totals"
  unfolding sortedStores_def sort_by_def sort_key_def
  by (induction totals) (simp_all add: insert_by_insort)

lemma sorted_sortedStores:
  "sorted_wrt (\<lambda>a b. compareStores a b \<le> 0) (sortedStores totals)"
proof -
  have "sorted (map rankKey (sort_key rankKey totals))"
    by (rule sorted_sort_key)
  then show ?thesis
    by (simp add: sortedStores_sort_key sorted_map compareStores_rankKey)
qed

lemma stable_sortedStores:
  "filter (\<lambda>t. missingItems t = m \<and> totalCost t = c) (sortedStores totals) =
   filter (\<lambda>t. missingItems t = m \<and> totalCost t = c) totals"
  using sort_key_stable [of rankKey "(m, c)" totals]
  by (simp add: sortedStores_sort_key rankKey_def)

lemma sortedStores_idem: "sortedStores (sortedStores totals) = sortedStores totals"
  by (simp add: sortedStores_sort_key sort_key_id_if_sorted)

lemma mset_sortedStores: "mset (sortedStores totals) = mset totals"
  by (simp add: sortedStores_sort_key)

lemma set_sortedStores: "set (sortedStores totals) = set totals"
  by (simp add: sortedStores_sort_key)

lemma winner_None: "winner totals = None \<longleftrightarrow> totals = []"
proof -
  have "sortedStores totals = [] \<longleftrightarrow> totals = []"
    using set_sortedStores [of totals] by (metis set_empty)
  then show ?thesis
    by (cases "sortedStores totals") (simp_all add: winner_def)
qed

lemma winner_least:
  assumes "winner totals = Some w"
  shows "w \<in> set totals \<and> (\<forall>t \<in> set totals. compareStores w t \<le> 0)"
proof -
  from assms obtain ws where ws: "sortedStores totals = w # ws"
    by (auto simp: winner_def split: list.splits)
  have refl: "compareStores w w \<le> 0"
    by (simp add: compareStores_def)
  from sorted_sortedStores [of totals] ws
  have "\<forall>t \<in> set ws. compareStores w t \<le> 0"
    by simp
  with refl have "\<forall>t \<in> set (sortedStores totals). compareStores w t \<le> 0"
    by (simp add: ws)
  moreover have "w \<in> set (sortedStores totals)"
    by (simp add: ws)
  ultimately show ?thesis
    by (simp add: set_sortedStores)
qed

lemma name_storeTotalOf: "totalStoreName (storeTotalOf items n) = n"
  by (simp add: storeTotalOf_def split: prod.splits)

lemma names_storeTotals: "map totalStoreName (storeTotals items) = allStoreNames items"
  by (simp add: storeTotals_def comp_def name_storeTotalOf)

lemma ties_by_name:
  "sorted_wrt (<) (map totalStoreName
      (filter (\<lambda>t. missingItems t = m \<and> totalCost t = c) (sortedStores (storeTotals items))))"
proof -
  have "sorted_wrt (<) (map totalStoreName (storeTotals items))"
    using distinct_allStoreNames [of items]
    by (simp add: names_storeTotals allStoreNames_def strict_sorted_iff)
  then have "sorted_wrt (\<lambda>a b. totalStoreName a < totalStoreName b) (storeTotals items)"
    by (simp add: sorted_wrt_map)
  then have "sorted_wrt (\<lambda>a b. totalStoreName a < totalStoreName b)
               (filter (\<lambda>t. missingItems t = m \<and> totalCost t = c) (storeTotals items))"
    by (rule sorted_wrt_filter)
  then show ?thesis
    by (simp add: stable_sortedStores sorted_wrt_map)
qed

lemma fewer_missing_first:
  assumes "missingItems b < missingItems a"
    and "i < length (sortedStores totals)" and "j < length (sortedStores totals)"
    and "sortedStores totals ! i = b" and "sortedStores totals ! j = a"
  shows "i < j"
proof (rule ccontr)
  assume "\<not> i < j"
  then consider "i = j" | "j < i" by linarith
  then show False
  proof cases
    case 1
    with assms show ?thesis by simp
  next
    case 2
    with sorted_sortedStores [of totals] assms(2)
    have "compareStores (sortedStores totals ! j) (sortedStores totals ! i) \<le> 0"
      by (simp add: sorted_wrt_iff_nth_less)
    with assms show ?thesis
      by (simp add: compareStores_le)
  qed
qed

text \<open>
  C2. The ranking orders the store totals by the number of missing items, and by the
  total cost among entries with the same number of missing items; it is a permutation
  of its input and it is stable: the entries that agree on both keys stand in the
  order they had in the input, which for the totals of a shopping list is the
  ascending order of the store names. Sorting a ranking again changes nothing. The
  winner is the first entry of the ranking: there is none exactly when there are no
  totals, and no entry compares below it.
\<close>

theorem sortedStores_stable_ranking:
  "sorted_wrt (\<lambda>a b. missingItems a < missingItems b \<or>
                      (missingItems a = missingItems b \<and> totalCost a \<le> totalCost b))
     (sortedStores totals)
   \<and> mset (sortedStores totals) = mset totals
   \<and> (\<forall>m c. filter (\<lambda>t. missingItems t = m \<and> totalCost t = c) (sortedStores totals) =
              filter (\<lambda>t. missingItems t = m \<and> totalCost t = c) totals)
   \<and> (\<forall>m c. sorted_wrt (<) (map totalStoreName
              (filter (\<lambda>t. missingItems t = m \<and> totalCost t = c)
                 (sortedStores (storeTotals items)))))
   \<and> sortedStores (sortedStores totals) = sortedStores totals
   \<and> winner totals = (case sortedStores totals of [] \<Rightarrow> None | w # _ \<Rightarrow> Some w)
   \<and> (winner totals = None \<longleftrightarrow> totals = [])
   \<and> (\<forall>w. winner totals = Some w \<longrightarrow>
          w \<in> set totals \<and> (\<forall>t \<in> set totals. compareStores w t \<le> 0))"
proof (intro conjI allI impI)
  show "sorted_wrt (\<lambda>a b. missingItems a < missingItems b \<or>
                      (missingItems a = missingItems b \<and> totalCost a \<le> totalCost b))
     (sortedStores totals)"
    using sorted_sortedStores [of totals] by (simp add: compareStores_le)
next
  show "mset (sortedStores totals) = mset totals"
    by (rule mset_sortedStores)
next
  fix m c
  show "filter (\<lambda>t. missingItems t = m \<and> totalCost t = c) (sortedStores totals) =
        filter (\<lambda>t. missingItems t = m \<and> totalCost t = c) totals"
    by (rule stable_sortedStores)
next
  fix m c
  show "sorted_wrt (<) (map totalStoreName
          (filter (\<lambda>t. missingItems t = m \<and> totalCost t = c)
             (sortedStores (storeTotals items))))"
    by (rule ties_by_name)
next
  show "sortedStores (sortedStores totals) = sortedStores totals"
    by (rule sortedStores_idem)
next
  show "winner totals = (case sortedStores totals of [] \<Rightarrow> None | w # _ \<Rightarrow> Some w)"
    by (simp add: winner_def)
next
  show "winner totals = None \<longleftrightarrow> totals = []"
    by (rule winner_None)
next
  fix w
  assume "winner totals = Some w"
  then show "w \<in> set totals" and "\<forall>t \<in> set totals. compareStores w t \<le> 0"
    using winner_least [of totals w] by simp_all
qed

theorem sortedStores_stable_ranking_witness:
  "winner [totalOf ''A'' 100 0, totalOf ''B'' 100 0, totalOf ''C'' 50 0] =
     Some (totalOf ''C'' 50 0)
   \<and> sortedStores [totalOf ''A'' 100 0, totalOf ''B'' 100 0, totalOf ''C'' 50 0] =
       [totalOf ''C'' 50 0, totalOf ''A'' 100 0, totalOf ''B'' 100 0]
   \<and> filter (\<lambda>t. missingItems t = 0 \<and> totalCost t = 100)
        (sortedStores [totalOf ''A'' 100 0, totalOf ''B'' 100 0, totalOf ''C'' 50 0]) =
       [totalOf ''A'' 100 0, totalOf ''B'' 100 0]
   \<and> totalOf ''C'' 50 0 \<in> set [totalOf ''A'' 100 0, totalOf ''B'' 100 0, totalOf ''C'' 50 0]"
proof -
  let ?ts = "[totalOf ''A'' 100 0, totalOf ''B'' 100 0, totalOf ''C'' 50 0]"
  have s: "sortedStores ?ts = [totalOf ''C'' 50 0, totalOf ''A'' 100 0, totalOf ''B'' 100 0]"
    by (simp add: sortedStores_def sort_by_def compareStores_def totalOf_def)
  have w: "winner ?ts = Some (totalOf ''C'' 50 0)"
    using sortedStores_stable_ranking [of ?ts] by (simp add: s)
  have f: "filter (\<lambda>t. missingItems t = 0 \<and> totalCost t = 100) (sortedStores ?ts) =
           [totalOf ''A'' 100 0, totalOf ''B'' 100 0]"
    by (simp add: s) (simp add: totalOf_def)
  from w s f show ?thesis by simp
qed

text \<open>
  C3. An entry with strictly fewer missing items compares below an entry with more,
  whatever their total costs, and stands before it in every ranking that contains
  both. For A with one missing item and a total of 500 and B with none and a total of
  900, the ranking is B, A, and B is the winner.
\<close>

theorem fewer_missing_items_first:
  "(missingItems b < missingItems a \<longrightarrow>
      compareStores b a < 0 \<and> 0 < compareStores a b
      \<and> (\<forall>i j. i < length (sortedStores totals) \<and> j < length (sortedStores totals)
                \<and> sortedStores totals ! i = b \<and> sortedStores totals ! j = a \<longrightarrow> i < j))
   \<and> sortedStores [totalOf ''A'' 500 1, totalOf ''B'' 900 0] =
       [totalOf ''B'' 900 0, totalOf ''A'' 500 1]
   \<and> winner [totalOf ''A'' 500 1, totalOf ''B'' 900 0] = Some (totalOf ''B'' 900 0)"
proof (intro conjI impI allI)
  assume "missingItems b < missingItems a"
  then show "compareStores b a < 0" and "0 < compareStores a b"
    by (simp_all add: compareStores_def)
next
  fix i j
  assume "missingItems b < missingItems a"
    and "i < length (sortedStores totals) \<and> j < length (sortedStores totals)
         \<and> sortedStores totals ! i = b \<and> sortedStores totals ! j = a"
  then show "i < j"
    using fewer_missing_first [of b a i totals j] by simp
next
  show "sortedStores [totalOf ''A'' 500 1, totalOf ''B'' 900 0] =
        [totalOf ''B'' 900 0, totalOf ''A'' 500 1]"
    by (simp add: sortedStores_def sort_by_def compareStores_def totalOf_def)
next
  show "winner [totalOf ''A'' 500 1, totalOf ''B'' 900 0] = Some (totalOf ''B'' 900 0)"
    by (simp add: winner_def sortedStores_def sort_by_def compareStores_def totalOf_def)
qed

theorem fewer_missing_items_first_witness:
  "missingItems (totalOf ''B'' 900 0) < missingItems (totalOf ''A'' 500 1)
   \<and> compareStores (totalOf ''B'' 900 0) (totalOf ''A'' 500 1) < 0
   \<and> sortedStores [totalOf ''A'' 500 1, totalOf ''B'' 900 0] ! 0 = totalOf ''B'' 900 0
   \<and> sortedStores [totalOf ''A'' 500 1, totalOf ''B'' 900 0] ! 1 = totalOf ''A'' 500 1"
proof -
  have m: "missingItems (totalOf ''B'' 900 0) < missingItems (totalOf ''A'' 500 1)"
    by (simp add: totalOf_def)
  note t = fewer_missing_items_first
    [of "totalOf ''B'' 900 0" "totalOf ''A'' 500 1" "[totalOf ''A'' 500 1, totalOf ''B'' 900 0]"]
  from t m have c: "compareStores (totalOf ''B'' 900 0) (totalOf ''A'' 500 1) < 0"
    by blast
  from t have s: "sortedStores [totalOf ''A'' 500 1, totalOf ''B'' 900 0] =
      [totalOf ''B'' 900 0, totalOf ''A'' 500 1]"
    by blast
  from m c show ?thesis unfolding s by simp
qed

lemma fold_min_Min: "fold min ps (p::number) = Min (set (p # ps))"
  by (rule Min.set_eq_fold [symmetric])

lemma minPrice_Min:
  assumes "\<exists>q \<in> set (prices item). inStock q"
  shows "minPrice item = Min (set (map price (filter inStock (prices item))))"
proof -
  from assms have "filter inStock (prices item) \<noteq> []"
    by (simp add: filter_empty_conv)
  then obtain p ps where "map price (filter inStock (prices item)) = p # ps"
    by (cases "filter inStock (prices item)") auto
  then show ?thesis
    using fold_min_Min [of ps p] by (simp add: minPrice_def)
qed






lemma reduce_cheaper_split:
  "\<exists>pre post. p # ps = pre @ fold (\<lambda>cur prev. cheaper prev cur) ps p # post
     \<and> (\<forall>r \<in> set pre. price (fold (\<lambda>cur prev. cheaper prev cur) ps p) \<le> price r)
     \<and> (\<forall>r \<in> set post. price (fold (\<lambda>cur prev. cheaper prev cur) ps p) < price r)"
proof (induction ps rule: rev_induct)
  case Nil
  show ?case
    by (rule exI [of _ "[]"], rule exI [of _ "[]"]) simp
next
  case (snoc x ps)
  let ?b = "fold (\<lambda>cur prev. cheaper prev cur) ps p"
  from snoc obtain pre post where split: "p # ps = pre @ ?b # post"
    and pre: "\<forall>r \<in> set pre. price ?b \<le> price r"
    and post: "\<forall>r \<in> set post. price ?b < price r"
    by blast
  have step: "fold (\<lambda>cur prev. cheaper prev cur) (ps @ [x]) p = cheaper ?b x"
    by simp
  show ?case
  proof (cases "price ?b < price x")
    case True
    then have b: "cheaper ?b x = ?b"
      by (simp add: cheaper_def)
    have "p # ps @ [x] = pre @ ?b # (post @ [x])"
      using split by simp
    moreover have "\<forall>r \<in> set (post @ [x]). price ?b < price r"
      using post True by simp
    ultimately show ?thesis
      unfolding step b using pre by blast
  next
    case False
    then have b: "cheaper ?b x = x"
      by (simp add: cheaper_def)
    have "\<forall>r \<in> set (pre @ ?b # post). price x \<le> price r"
    proof
      fix r
      assume "r \<in> set (pre @ ?b # post)"
      then consider "r \<in> set pre" | "r = ?b" | "r \<in> set post"
        by auto
      then have "price ?b \<le> price r"
        using pre post by cases force+
      with False show "price x \<le> price r"
        by simp
    qed
    then have all: "\<forall>r \<in> set (p # ps). price x \<le> price r"
      by (simp only: split)
    have "p # ps @ [x] = (p # ps) @ x # []"
      by simp
    moreover have "\<forall>r \<in> set ([]::storePrice list). price x < price r"
      by simp
    ultimately show ?thesis
      unfolding step b using all by blast
  qed
qed

lemma find_filter_conj: "find (\<lambda>p. P p \<and> Q p) xs = find Q (filter P xs)"
  by (induction xs) simp_all

lemma find_skip:
  "\<forall>r \<in> set xs. \<not> Q r \<Longrightarrow> Q b \<Longrightarrow> find Q (xs @ b # ys) = Some b"
  by (induction xs) simp_all

lemma withBest_in_stock:
  assumes "\<exists>q \<in> set (prices item). inStock q"
  shows "bestPrice (withBest item) = Some (cheapestInStock item)
    \<and> bestStore (withBest item) = map_option storeName (lastCheapest item)
    \<and> lastCheapest item \<noteq> None"
proof -
  from assms have "filter inStock (prices item) \<noteq> []"
    by (simp add: filter_empty_conv)
  then obtain p ps where stock: "filter inStock (prices item) = p # ps"
    by (cases "filter inStock (prices item)") auto
  let ?b = "fold (\<lambda>cur prev. cheaper prev cur) ps p"
  from reduce_cheaper_split [of p ps] obtain pre post where split: "p # ps = pre @ ?b # post"
    and pre: "\<forall>r \<in> set pre. price ?b \<le> price r"
    and post: "\<forall>r \<in> set post. price ?b < price r"
    by blast
  have "\<forall>r \<in> set (pre @ ?b # post). price ?b \<le> price r"
  proof
    fix r
    assume "r \<in> set (pre @ ?b # post)"
    then consider "r \<in> set pre" | "r = ?b" | "r \<in> set post"
      by auto
    then show "price ?b \<le> price r"
      using pre post by cases force+
  qed
  then have least: "\<forall>r \<in> set (p # ps). price ?b \<le> price r"
    by (simp only: split)
  have "?b \<in> set (pre @ ?b # post)"
    by simp
  then have mem: "?b \<in> set (p # ps)"
    by (simp only: split)
  have "Min (price ` set (p # ps)) = price ?b"
    using least mem by (intro Min_eqI) auto
  then have min: "cheapestInStock item = price ?b"
    by (simp add: cheapestInStock_def stock)
  have "lastCheapest item = find (\<lambda>q. price q = price ?b) (rev (filter inStock (prices item)))"
    by (simp add: lastCheapest_def min find_filter_conj rev_filter)
  also have "rev (filter inStock (prices item)) = rev post @ ?b # rev pre"
    unfolding stock split by simp
  also have "find (\<lambda>q. price q = price ?b) (rev post @ ?b # rev pre) = Some ?b"
    using post by (intro find_skip) auto
  finally have last: "lastCheapest item = Some ?b" .
  show ?thesis
    by (simp add: withBest_def stock Let_def min last)
qed

lemma withBest_no_stock:
  assumes "\<not> (\<exists>q \<in> set (prices item). inStock q)"
  shows "withBest item = item"
proof -
  from assms have "filter inStock (prices item) = []"
    by (simp add: filter_empty_conv)
  then show ?thesis by (simp add: withBest_def)
qed

lemma minPrice_cheapestInStock:
  "\<exists>q \<in> set (prices item). inStock q \<Longrightarrow> minPrice item = cheapestInStock item"
  by (simp only: minPrice_Min cheapestInStock_def)




text \<open>
  C6, as the spec states it, fails on a tie: the callback keeps \<open>prev\<close> only when its
  price is strictly smaller, so of two in-stock quotes at the minimum price the later
  one is kept. For the quotes X: 100 and Z: 100, both in stock, the best store is Z,
  while the first in-stock quote at the minimum is the one of X.
\<close>

theorem withBest_tie_takes_last:
  "bestStore (withBest tieItem) = Some (str ''Z'')
   \<and> map_option storeName (firstCheapest tieItem) = Some (str ''X'')
   \<and> bestStore (withBest tieItem) \<noteq> map_option storeName (firstCheapest tieItem)"
  by (simp add: withBest_def cheaper_def firstCheapest_def cheapestInStock_def tieItem_def
      fixture_defs)

text \<open>
  C6, amended. The post-processing maps \<open>withBest\<close> over the items and leaves their
  quotes as they are. When some quote of the item is in stock, \<open>bestPrice\<close> is present
  and is the minimum price among the in-stock quotes, and \<open>bestStore\<close> is the store of
  the last in-stock quote, in the order of \<open>prices\<close>, that attains this minimum. When
  no quote is in stock the item is returned as it was received, so \<open>bestStore\<close> and
  \<open>bestPrice\<close> are absent when the response carries neither.
\<close>

theorem withBest_cheapest_last:
  "postProcess data = map withBest data
   \<and> prices (withBest item) = prices item
   \<and> ((\<exists>q \<in> set (prices item). inStock q) \<longrightarrow>
        bestPrice (withBest item) = Some (cheapestInStock (withBest item))
        \<and> bestStore (withBest item) = map_option storeName (lastCheapest (withBest item))
        \<and> lastCheapest (withBest item) \<noteq> None)
   \<and> (\<not> (\<exists>q \<in> set (prices item). inStock q) \<longrightarrow>
        withBest item = item
        \<and> (bestStore item = None \<and> bestPrice item = None \<longrightarrow>
            bestStore (withBest item) = None \<and> bestPrice (withBest item) = None))"
proof -
  have p: "prices (withBest item) = prices item"
    by (simp add: withBest_def Let_def split: list.splits)
  have c: "cheapestInStock (withBest item) = cheapestInStock item"
    by (simp add: cheapestInStock_def p)
  have l: "lastCheapest (withBest item) = lastCheapest item"
    by (simp add: lastCheapest_def cheapestInStock_def p)
  have "bestPrice (withBest item) = Some (cheapestInStock item)
        \<and> bestStore (withBest item) = map_option storeName (lastCheapest item)
        \<and> lastCheapest item \<noteq> None"
    if "\<exists>q \<in> set (prices item). inStock q"
    using withBest_in_stock [OF that] by simp
  moreover have "withBest item = item" if "\<not> (\<exists>q \<in> set (prices item). inStock q)"
    using that by (rule withBest_no_stock)
  ultimately show ?thesis
    unfolding c l by (simp add: p postProcess_def)
qed

theorem withBest_cheapest_last_witness:
  "list_ex inStock (prices tieItem)
   \<and> bestPrice (withBest tieItem) = Some 100
   \<and> bestStore (withBest tieItem) = Some (str ''Z'')
   \<and> lastCheapest (withBest tieItem) = Some (quote ''Z'' 100 True)
   \<and> list_all (\<lambda>q. \<not> inStock q) (prices (itemOf ''1'' [quote ''Y'' 90 False]))
   \<and> withBest (itemOf ''1'' [quote ''Y'' 90 False]) = itemOf ''1'' [quote ''Y'' 90 False]
   \<and> bestStore (withBest (itemOf ''1'' [quote ''Y'' 90 False])) = None"
proof -
  let ?out = "itemOf ''1'' [quote ''Y'' 90 False]"
  have e: "list_ex inStock (prices tieItem)"
    by (simp add: tieItem_def fixture_defs)
  then have e': "\<exists>q \<in> set (prices tieItem). inStock q"
    by (simp add: list_ex_iff)
  have p: "prices (withBest tieItem) = prices tieItem"
    using withBest_cheapest_last [of "[]" tieItem] by blast
  have c: "cheapestInStock (withBest tieItem) = 100"
    unfolding cheapestInStock_def p by (simp add: tieItem_def fixture_defs)
  have l: "lastCheapest (withBest tieItem) = Some (quote ''Z'' 100 True)"
    unfolding lastCheapest_def cheapestInStock_def p by (simp add: tieItem_def fixture_defs)
  from withBest_cheapest_last [of "[]" tieItem] e'
  have "bestPrice (withBest tieItem) = Some (cheapestInStock (withBest tieItem))
        \<and> bestStore (withBest tieItem) = map_option storeName (lastCheapest (withBest tieItem))"
    by blast
  then have b: "bestPrice (withBest tieItem) = Some 100
        \<and> bestStore (withBest tieItem) = Some (str ''Z'')"
    unfolding c l by (simp add: quote_def)
  have n: "list_all (\<lambda>q. \<not> inStock q) (prices ?out)"
    by (simp add: fixture_defs)
  then have n': "\<not> (\<exists>q \<in> set (prices ?out). inStock q)"
    by (simp add: list_all_iff)
  have a: "bestStore ?out = None \<and> bestPrice ?out = None"
    by (simp add: itemOf_def)
  from withBest_cheapest_last [of "[]" ?out] n' a
  have "withBest ?out = ?out \<and> bestStore (withBest ?out) = None"
    by blast
  with e b l n show ?thesis by blast
qed

text \<open>
  C7, at its failing input. A shopping list that is not empty but whose items carry no
  quote passes the guard \<^verbatim>\<open>items.length > 0\<close>; its retailer universe is empty, the
  winner is \<^verbatim>\<open>undefined\<close>, and reading \<^verbatim>\<open>winner.storeName\<close> throws. The empty shopping
  list does not reach the branch and shows the start prompt.
\<close>

theorem PriceParser_no_quotes_throws:
  "PriceParser READY [itemOf ''0'' []] = Inl TypeError
   \<and> allStoreNames [itemOf ''0'' []] = []
   \<and> storeTotals [itemOf ''0'' []] = []
   \<and> winner (storeTotals [itemOf ''0'' []]) = None
   \<and> PriceParser READY [] = Inr StartPrompt"
  by (simp add: PriceParser_def winner_def sortedStores_def sort_by_def storeTotals_def
      allStoreNames_def set_from_def fixture_defs)

lemma map_snd_enumerate_fun:
  "map (\<lambda>x. f (snd x)) (enumerate n xs) = map f xs"
proof -
  have "map (\<lambda>x. f (snd x)) (enumerate n xs) = map f (map snd (enumerate n xs))"
    by (simp only: map_map comp_def)
  then show ?thesis
    by (simp only: map_snd_enumerate)
qed

lemma map_fst_enumerate_fun:
  "map (\<lambda>x. f (fst x)) (enumerate n xs) = map f [n..<n + length xs]"
proof -
  have "map (\<lambda>x. f (fst x)) (enumerate n xs) = map f (map fst (enumerate n xs))"
    by (simp only: map_map comp_def)
  then show ?thesis
    by (simp only: map_fst_enumerate)
qed

lemma skeleton_names: "map name (skeletonItems newPlan) = map entryName (shoppingList newPlan)"
  by (simp add: skeletonItems_def comp_def split_def map_snd_enumerate_fun)

lemma skeleton_amounts:
  "map originalAmount (skeletonItems newPlan) = map amount (shoppingList newPlan)"
  by (simp add: skeletonItems_def comp_def split_def map_snd_enumerate_fun)

lemma skeleton_ids:
  "map itemId (skeletonItems newPlan) = map toString [0..<length (shoppingList newPlan)]"
  by (simp add: skeletonItems_def comp_def split_def map_fst_enumerate_fun)

lemma skeleton_no_prices:
  "item \<in> set (skeletonItems newPlan) \<Longrightarrow>
   prices item = [] \<and> bestStore item = None \<and> bestPrice item = None"
  by (auto simp: skeletonItems_def)

lemma skeleton_length: "length (skeletonItems newPlan) = length (shoppingList newPlan)"
  by (simp add: skeletonItems_def)

lemma handlePlanUpdate_nonempty:
  "shoppingList newPlan \<noteq> [] \<Longrightarrow>
   handlePlanUpdate newPlan st =
     \<lparr>currentPlan = Some newPlan, shoppingItems = skeletonItems newPlan, status = IDLE\<rparr>"
  by (simp add: handlePlanUpdate_def Let_def)

lemma handlePlanUpdate_empty:
  "shoppingList newPlan = [] \<Longrightarrow>
   handlePlanUpdate newPlan st = st\<lparr>currentPlan := Some newPlan\<rparr>"
  by (simp add: handlePlanUpdate_def Let_def)

text \<open>
  C8, as the spec states it, fails for a plan whose shopping list is empty: the guard
  \<^verbatim>\<open>newPlan.shoppingList.length > 0\<close> skips the update, and the priced items of the
  previous list stay in the state, with its status.
\<close>

theorem handlePlanUpdate_empty_plan_keeps_items:
  "shoppingList emptyPlan = []
   \<and> skeletonItems emptyPlan = []
   \<and> shoppingItems (handlePlanUpdate emptyPlan pricedState) = exampleList
   \<and> shoppingItems (handlePlanUpdate emptyPlan pricedState) \<noteq> skeletonItems emptyPlan
   \<and> status (handlePlanUpdate emptyPlan pricedState) = READY"
  by (simp add: handlePlanUpdate_def skeletonItems_def emptyPlan_def pricedState_def
      exampleList_def)

text \<open>
  C8, amended. The new plan is always stored. When its shopping list is not empty, the
  shopping list of the state becomes the list of skeleton items and the status becomes
  IDLE, whatever the state was before: nothing of the previous list or of its prices
  remains. There is one skeleton item for every entry of the plan, in order, with the
  entry's name and amount, the entry's index as its id, no quotes and no best store or
  price. When the plan's shopping list is empty, the shopping list and the status of
  the state are left as they were.
\<close>

theorem handlePlanUpdate_replaces_items:
  "currentPlan (handlePlanUpdate newPlan st) = Some newPlan
   \<and> (shoppingList newPlan \<noteq> [] \<longrightarrow>
        shoppingItems (handlePlanUpdate newPlan st) = skeletonItems newPlan
        \<and> status (handlePlanUpdate newPlan st) = IDLE
        \<and> handlePlanUpdate newPlan st = handlePlanUpdate newPlan st')
   \<and> (shoppingList newPlan = [] \<longrightarrow>
        shoppingItems (handlePlanUpdate newPlan st) = shoppingItems st
        \<and> status (handlePlanUpdate newPlan st) = status st)
   \<and> length (skeletonItems newPlan) = length (shoppingList newPlan)
   \<and> map name (skeletonItems newPlan) = map entryName (shoppingList newPlan)
   \<and> map originalAmount (skeletonItems newPlan) = map amount (shoppingList newPlan)
   \<and> map itemId (skeletonItems newPlan) = map toString [0..<length (shoppingList newPlan)]
   \<and> (\<forall>item \<in> set (skeletonItems newPlan).
         prices item = [] \<and> bestStore item = None \<and> bestPrice item = None)"
proof (intro conjI impI)
  show "currentPlan (handlePlanUpdate newPlan st) = Some newPlan"
    by (simp add: handlePlanUpdate_def Let_def)
next
  assume ne: "shoppingList newPlan \<noteq> []"
  show "shoppingItems (handlePlanUpdate newPlan st) = skeletonItems newPlan"
    and "status (handlePlanUpdate newPlan st) = IDLE"
    and "handlePlanUpdate newPlan st = handlePlanUpdate newPlan st'"
    by (simp_all add: handlePlanUpdate_nonempty [OF ne])
next
  assume e: "shoppingList newPlan = []"
  show "shoppingItems (handlePlanUpdate newPlan st) = shoppingItems st"
    and "status (handlePlanUpdate newPlan st) = status st"
    by (simp_all add: handlePlanUpdate_empty [OF e])
next
  show "length (skeletonItems newPlan) = length (shoppingList newPlan)"
    by (rule skeleton_length)
next
  show "map name (skeletonItems newPlan) = map entryName (shoppingList newPlan)"
    by (rule skeleton_names)
next
  show "map originalAmount (skeletonItems newPlan) = map amount (shoppingList newPlan)"
    by (rule skeleton_amounts)
next
  show "map itemId (skeletonItems newPlan) = map toString [0..<length (shoppingList newPlan)]"
    by (rule skeleton_ids)
next
  show "\<forall>item \<in> set (skeletonItems newPlan).
      prices item = [] \<and> bestStore item = None \<and> bestPrice item = None"
    using skeleton_no_prices by blast
qed

theorem handlePlanUpdate_replaces_items_witness:
  "shoppingList milkPlan =
     [\<lparr>entryName = str ''milk'', amount = str ''1 l'', estimatedPrice = 90\<rparr>,
      \<lparr>entryName = str ''rice'', amount = str ''1 kg'', estimatedPrice = 120\<rparr>]
   \<and> shoppingItems (handlePlanUpdate milkPlan pricedState) =
       [\<lparr>itemId = str ''0'', name = str ''milk'', originalAmount = str ''1 l'', prices = [],
         bestStore = None, bestPrice = None\<rparr>,
        \<lparr>itemId = str ''1'', name = str ''rice'', originalAmount = str ''1 kg'', prices = [],
         bestStore = None, bestPrice = None\<rparr>]
   \<and> status (handlePlanUpdate milkPlan pricedState) = IDLE
   \<and> shoppingItems (handlePlanUpdate emptyPlan pricedState) = exampleList"
proof -
  have l: "shoppingList milkPlan =
     [\<lparr>entryName = str ''milk'', amount = str ''1 l'', estimatedPrice = 90\<rparr>,
      \<lparr>entryName = str ''rice'', amount = str ''1 kg'', estimatedPrice = 120\<rparr>]"
    by (simp add: milkPlan_def)
  then have n: "shoppingList milkPlan \<noteq> []"
    by simp
  have k: "skeletonItems milkPlan =
       [\<lparr>itemId = str ''0'', name = str ''milk'', originalAmount = str ''1 l'', prices = [],
         bestStore = None, bestPrice = None\<rparr>,
        \<lparr>itemId = str ''1'', name = str ''rice'', originalAmount = str ''1 kg'', prices = [],
         bestStore = None, bestPrice = None\<rparr>]"
    by (simp add: skeletonItems_def milkPlan_def toString.simps str_def)
  note t = handlePlanUpdate_replaces_items [of milkPlan pricedState pricedState]
  from t [THEN conjunct2, THEN conjunct1] n
  have m: "shoppingItems (handlePlanUpdate milkPlan pricedState) = skeletonItems milkPlan
        \<and> status (handlePlanUpdate milkPlan pricedState) = IDLE
        \<and> handlePlanUpdate milkPlan pricedState = handlePlanUpdate milkPlan pricedState"
    by (rule mp)
  have e: "shoppingList emptyPlan = []"
    by (simp add: emptyPlan_def)
  note t' = handlePlanUpdate_replaces_items [of emptyPlan pricedState pricedState]
  from t' [THEN conjunct2, THEN conjunct2, THEN conjunct1] e
  have "shoppingItems (handlePlanUpdate emptyPlan pricedState) = shoppingItems pricedState
        \<and> status (handlePlanUpdate emptyPlan pricedState) = status pricedState"
    by (rule mp)
  then have "shoppingItems (handlePlanUpdate emptyPlan pricedState) = exampleList"
    by (simp add: pricedState_def)
  then have x: "shoppingItems (handlePlanUpdate emptyPlan pricedState) = exampleList" .
  from m [THEN conjunct1]
  have m1: "shoppingItems (handlePlanUpdate milkPlan pricedState) =
       [\<lparr>itemId = str ''0'', name = str ''milk'', originalAmount = str ''1 l'', prices = [],
         bestStore = None, bestPrice = None\<rparr>,
        \<lparr>itemId = str ''1'', name = str ''rice'', originalAmount = str ''1 kg'', prices = [],
         bestStore = None, bestPrice = None\<rparr>]"
    by (simp only: k)
  note m2 = m [THEN conjunct2, THEN conjunct1]
  from l m1 m2 x show ?thesis
    by (intro conjI)
qed





















end
